theory Spec2Isabelle
  imports Complex_Main "HOL-Library.Product_Lexorder" "HOL-Library.Sublist" "HOL-Library.Multiset"
begin

section \<open>Numbers, strings and dictionaries of app.py\<close>

text \<open>
  The numbers of \<^verbatim>\<open>app.py\<close> are Python floats. They are modelled as exact rationals
  (\<^typ>\<open>rat\<close>): the decimal literal \<^verbatim>\<open>0.45\<close> is the rational \<open>45 / 100\<close>, and
  \<open>+\<close>, \<open>-\<close>, \<open>*\<close>, \<open>/\<close> are exact. Every result below is a result about the algorithm in
  exact arithmetic; the representation error of IEEE-754 doubles, infinities and NaN are
  outside the model. Python integers are \<^typ>\<open>int\<close>.
\<close>

datatype py_error = InsufficientSavings | ZeroDivisionError | KeyError | AttributeError
  | FileNotFoundError | PermissionError | IsADirectoryError

text \<open>
  \<^verbatim>\<open>round(x, 2)\<close>: Python rounds to the nearest multiple of \<open>1/100\<close> and resolves a tie
  to the even neighbour.
\<close>

definition round_half_even :: "rat \<Rightarrow> int" where
  "round_half_even x =
     (let f = \<lfloor>x\<rfloor>; d = x - of_int f
      in if d < 1 / 2 then f else if 1 / 2 < d then f + 1 else if even f then f else f + 1)"

definition round2 :: "rat \<Rightarrow> rat" where
  "round2 x = of_int (round_half_even (x * 100)) / 100"

text \<open>
  \<^verbatim>\<open>str.lower()\<close> on ASCII text: the letters \<open>A\<close> to \<open>Z\<close> (codes 65 to 90) move to
  \<open>a\<close> to \<open>z\<close>; every other character is kept.
\<close>

definition lower_char :: "char \<Rightarrow> char" where
  "lower_char c =
     (let n = (of_char c :: nat) in if 65 \<le> n \<and> n \<le> 90 then char_of (n + 32) else c)"

definition lower :: "string \<Rightarrow> string" where
  "lower s = map lower_char s"

text \<open>
  A Python \<^verbatim>\<open>dict\<close> with string keys keeps its insertion order; it is an association
  list. \<^verbatim>\<open>d[k] += x\<close> on a key that is present changes that entry in place.
\<close>

type_synonym 'v dict = "(string \<times> 'v) list"

definition dict_values :: "'v dict \<Rightarrow> 'v list" where
  "dict_values d = map snd d"

definition dict_keys :: "'v dict \<Rightarrow> string list" where
  "dict_keys d = map fst d"

definition add_to :: "string \<Rightarrow> rat \<Rightarrow> rat dict \<Rightarrow> rat dict" where
  "add_to k x d = map (\<lambda>(k', v). (k', if k' = k then v + x else v)) d"

section \<open>The allocation engine: investment_advice\<close>

definition bucket_names :: "string list" where
  "bucket_names = [''Stocks'', ''Mutual Funds'', ''Gold'', ''Insurance'', ''Emergency Fund'']"

text \<open>Lines 48 to 53: the base table chosen by the risk level.\<close>

definition base_ratio :: "string \<Rightarrow> rat dict" where
  "base_ratio risk_level =
     (if lower risk_level = ''high'' then
        [(''Stocks'', 45 / 100), (''Mutual Funds'', 30 / 100), (''Gold'', 10 / 100),
         (''Insurance'', 5 / 100), (''Emergency Fund'', 10 / 100)]
      else if lower risk_level = ''moderate'' then
        [(''Stocks'', 30 / 100), (''Mutual Funds'', 30 / 100), (''Gold'', 10 / 100),
         (''Insurance'', 10 / 100), (''Emergency Fund'', 20 / 100)]
      else
        [(''Stocks'', 20 / 100), (''Mutual Funds'', 25 / 100), (''Gold'', 10 / 100),
         (''Insurance'', 20 / 100), (''Emergency Fund'', 25 / 100)])"

text \<open>Lines 56 to 65: the three blocks of adjustments, each the body of one \<^verbatim>\<open>if\<close>.\<close>

definition adjust_age_dependents :: "rat dict \<Rightarrow> rat dict" where
  "adjust_age_dependents ratio =
     add_to ''Emergency Fund'' (5 / 100) (add_to ''Insurance'' (5 / 100)
       (add_to ''Stocks'' (- (10 / 100)) ratio))"

definition adjust_occupation :: "rat dict \<Rightarrow> rat dict" where
  "adjust_occupation ratio =
     add_to ''Mutual Funds'' (- (5 / 100)) (add_to ''Emergency Fund'' (5 / 100) ratio)"

definition adjust_knowledge :: "rat dict \<Rightarrow> rat dict" where
  "adjust_knowledge ratio =
     add_to ''Mutual Funds'' (5 / 100) (add_to ''Stocks'' (- (5 / 100)) ratio)"

definition adjusted_ratio :: "int \<Rightarrow> string \<Rightarrow> string \<Rightarrow> string \<Rightarrow> int \<Rightarrow> rat dict" where
  "adjusted_ratio age risk_level occupation knowledge dependents =
     (let ratio = base_ratio risk_level;
          ratio = (if age > 50 \<or> dependents > 3 then adjust_age_dependents ratio else ratio);
          ratio = (if lower occupation \<in> set [''business'', ''freelancer'']
                   then adjust_occupation ratio else ratio);
          ratio = (if lower knowledge = ''beginner'' then adjust_knowledge ratio else ratio)
      in ratio)"

text \<open>
  Lines 68 to 71: normalise and allocate. The division by \<^verbatim>\<open>total_ratio\<close> raises
  \<^verbatim>\<open>ZeroDivisionError\<close> in Python when the divisor is zero.
\<close>

definition normalize_allocate :: "rat dict \<Rightarrow> rat \<Rightarrow> py_error + rat dict" where
  "normalize_allocate ratio savings =
     (let total_ratio = sum_list (dict_values ratio)
      in if total_ratio = 0 then Inl ZeroDivisionError
         else let ratio' = map (\<lambda>(k, v). (k, v / total_ratio)) ratio
              in Inr (map (\<lambda>(k, v). (k, round2 (v * savings))) ratio'))"

text \<open>
  The whole function. The dictionary \<^verbatim>\<open>{"error": ...}\<close> returned at line 45 holds no
  amount; it is the error value \<^const>\<open>InsufficientSavings\<close>.
\<close>

definition investment_advice ::
  "rat \<Rightarrow> rat \<Rightarrow> int \<Rightarrow> string \<Rightarrow> string \<Rightarrow> string \<Rightarrow> int \<Rightarrow> rat \<Rightarrow> py_error + rat dict" where
  "investment_advice income expenses age risk_level occupation knowledge dependents debt =
     (let savings = income - expenses - debt
      in if savings \<le> 0 then Inl InsufficientSavings
         else normalize_allocate
                (adjusted_ratio age risk_level occupation knowledge dependents) savings)"

text \<open>
  The ratio table in the words of the specification: the base value of a bucket plus the
  delta of every block whose condition holds. No value is clamped.
\<close>

definition spec_base :: "string \<Rightarrow> string \<Rightarrow> rat" where
  "spec_base risk_level k =
     (if lower risk_level = ''high'' then
        (if k = ''Stocks'' then 45 / 100 else if k = ''Mutual Funds'' then 30 / 100
         else if k = ''Gold'' then 10 / 100 else if k = ''Insurance'' then 5 / 100
         else 10 / 100)
      else if lower risk_level = ''moderate'' then
        (if k = ''Stocks'' then 30 / 100 else if k = ''Mutual Funds'' then 30 / 100
         else if k = ''Gold'' then 10 / 100 else if k = ''Insurance'' then 10 / 100
         else 20 / 100)
      else
        (if k = ''Stocks'' then 20 / 100 else if k = ''Mutual Funds'' then 25 / 100
         else if k = ''Gold'' then 10 / 100 else if k = ''Insurance'' then 20 / 100
         else 25 / 100))"

definition spec_delta_age_dependents :: "string \<Rightarrow> rat" where
  "spec_delta_age_dependents k =
     (if k = ''Stocks'' then - (10 / 100) else if k = ''Insurance'' then 5 / 100
      else if k = ''Emergency Fund'' then 5 / 100 else 0)"

definition spec_delta_occupation :: "string \<Rightarrow> rat" where
  "spec_delta_occupation k =
     (if k = ''Emergency Fund'' then 5 / 100 else if k = ''Mutual Funds'' then - (5 / 100)
      else 0)"

definition spec_delta_knowledge :: "string \<Rightarrow> rat" where
  "spec_delta_knowledge k =
     (if k = ''Stocks'' then - (5 / 100) else if k = ''Mutual Funds'' then 5 / 100 else 0)"

definition spec_ratio :: "int \<Rightarrow> string \<Rightarrow> string \<Rightarrow> string \<Rightarrow> int \<Rightarrow> string \<Rightarrow> rat" where
  "spec_ratio age risk_level occupation knowledge dependents k =
     spec_base risk_level k
     + (if age > 50 \<or> dependents > 3 then spec_delta_age_dependents k else 0)
     + (if lower occupation = ''business'' \<or> lower occupation = ''freelancer''
        then spec_delta_occupation k else 0)
     + (if lower knowledge = ''beginner'' then spec_delta_knowledge k else 0)"

definition spec_table :: "int \<Rightarrow> string \<Rightarrow> string \<Rightarrow> string \<Rightarrow> int \<Rightarrow> rat dict" where
  "spec_table age risk_level occupation knowledge dependents =
     map (\<lambda>k. (k, spec_ratio age risk_level occupation knowledge dependents k)) bucket_names"

section \<open>The projection engine: compound_with_stepup\<close>

text \<open>\<^verbatim>\<open>int(x)\<close> truncates toward zero; \<^verbatim>\<open>range(n)\<close> is empty when \<open>n\<close> is not positive.\<close>

definition py_int :: "rat \<Rightarrow> int" where
  "py_int x = (if 0 \<le> x then \<lfloor>x\<rfloor> else \<lceil>x\<rceil>)"

definition py_range :: "int \<Rightarrow> nat list" where
  "py_range n = [0..<nat n]"

text \<open>
  Lines 82 to 85: the loop over the months, with the two variables it assigns,
  \<^verbatim>\<open>total\<close> (here \<open>tot\<close>) and \<^verbatim>\<open>monthly_investment\<close>.
\<close>

fun run_months :: "rat \<Rightarrow> rat \<Rightarrow> nat list \<Rightarrow> rat \<Rightarrow> rat \<Rightarrow> rat \<times> rat" where
  "run_months r step_up_rate [] tot monthly_investment = (tot, monthly_investment)"
| "run_months r step_up_rate (month # months) tot monthly_investment =
     (let tot' = tot * (1 + r) + monthly_investment;
          monthly_investment' =
            (if (month + 1) mod 12 = 0 then monthly_investment * (1 + step_up_rate)
             else monthly_investment)
      in run_months r step_up_rate months tot' monthly_investment')"

definition compound_with_stepup :: "rat \<Rightarrow> rat \<Rightarrow> rat \<Rightarrow> rat \<Rightarrow> rat \<Rightarrow> rat" where
  "compound_with_stepup princ rate years monthly_addition step_up_rate =
     (let r = rate / 12;
          (tot, monthly_investment) =
            run_months r step_up_rate (py_range (py_int (years * 12))) princ monthly_addition
      in round2 tot)"

text \<open>
  The projection in the words of the specification: the contribution paid in month \<open>k\<close>
  (\<open>k = 1, 2, \<dots>\<close>) has been stepped up once for every full year before it, and the total
  after \<open>k\<close> months follows the recurrence.
\<close>

definition spec_contribution :: "rat \<Rightarrow> rat \<Rightarrow> nat \<Rightarrow> rat" where
  "spec_contribution monthlyContribution annualStepUpRate k =
     monthlyContribution * (1 + annualStepUpRate) ^ ((k - 1) div 12)"

fun spec_total :: "rat \<Rightarrow> rat \<Rightarrow> rat \<Rightarrow> rat \<Rightarrow> nat \<Rightarrow> rat" where
  "spec_total princ annualRate monthlyContribution annualStepUpRate 0 = princ"
| "spec_total princ annualRate monthlyContribution annualStepUpRate (Suc k) =
     spec_total princ annualRate monthlyContribution annualStepUpRate k
       * (1 + annualRate / 12)
     + spec_contribution monthlyContribution annualStepUpRate (Suc k)"

section \<open>The catalog query: get_top_items\<close>

text \<open>
  A resource is the dictionary built at lines 21 to 25, with the keys \<^verbatim>\<open>type\<close>,
  \<^verbatim>\<open>name\<close> and \<^verbatim>\<open>cagr_10y\<close>; \<^verbatim>\<open>None\<close> is \<^const>\<open>None\<close>.
\<close>

record resource =
  rtype :: string
  rname :: string
  cagr_10y :: "rat option"

text \<open>\<^verbatim>\<open>str.strip()\<close> on ASCII text removes leading and trailing whitespace.\<close>

definition is_space :: "char \<Rightarrow> bool" where
  "is_space c = ((of_char c :: nat) \<in> set [9, 10, 11, 12, 13, 28, 29, 30, 31, 32])"

definition strip :: "string \<Rightarrow> string" where
  "strip s = rev (dropWhile is_space (rev (dropWhile is_space s)))"

text \<open>
  The key of line 35, a pair compared lexicographically with \<open>False < True\<close>. The test
  \<^verbatim>\<open>if x["cagr_10y"]\<close> is false for \<^verbatim>\<open>None\<close> and for zero.
\<close>

definition item_key :: "resource \<Rightarrow> bool \<times> rat" where
  "item_key x =
     (cagr_10y x = None,
      (case cagr_10y x of None \<Rightarrow> 0 | Some c \<Rightarrow> if c \<noteq> 0 then - c else 0))"

text \<open>\<^verbatim>\<open>xs[:n]\<close>: a negative \<open>n\<close> counts from the end of the list.\<close>

definition slice_to :: "'a list \<Rightarrow> int \<Rightarrow> 'a list" where
  "slice_to xs n = (if n < 0 then take (nat (int (length xs) + n)) xs else take (nat n) xs)"

text \<open>\<^verbatim>\<open>list.sort\<close> is stable, as the insertion sort \<^const>\<open>sort_key\<close> is.\<close>

definition get_top_items :: "resource list \<Rightarrow> string \<Rightarrow> int \<Rightarrow> resource list" where
  "get_top_items resources category top_n =
     (let cat = lower (strip category);
          filtered = filter (\<lambda>r. lower (rtype r) = cat) resources;
          filtered = sort_key item_key filtered
      in slice_to filtered top_n)"


section \<open>The loader: load_resources\<close>










section \<open>The explorer: the Calculate Growth block\<close>

text \<open>
  \<^verbatim>\<open>x ** n\<close> for an integer \<open>n\<close>: a negative exponent divides, and fails on a zero base.
\<close>

definition py_pow :: "rat \<Rightarrow> int \<Rightarrow> py_error + rat" where
  "py_pow x n =
     (if 0 \<le> n then Inr (x ^ nat n)
      else if x = 0 then Inl ZeroDivisionError else Inr (1 / x ^ nat (- n)))"

record growth =
  final_value :: rat
  profit :: rat
  progress :: rat

definition calculate_growth :: "rat \<Rightarrow> rat \<Rightarrow> int \<Rightarrow> py_error + growth" where
  "calculate_growth amount rate years =
     (case py_pow (1 + rate / 100) years of
        Inl e \<Rightarrow> Inl e
      | Inr p \<Rightarrow>
          let final_value = amount * p;
              profit = final_value - amount
          in if amount * 3 = 0 then Inl ZeroDivisionError
             else Inr \<lparr>final_value = final_value, profit = profit,
                       progress = min (final_value / (amount * 3)) 1\<rparr>)"

text \<open>
  Lines 181 and 182: the widgets give an amount of at least 1000 and a whole number of
  years from 1 to 40.
\<close>

definition explorer_inputs :: "rat \<Rightarrow> int \<Rightarrow> bool" where
  "explorer_inputs amount years = (1000 \<le> amount \<and> 1 \<le> years \<and> years \<le> 40)"

text \<open>The specification's formula.\<close>

definition lumpSumGrowth :: "rat \<Rightarrow> rat \<Rightarrow> nat \<Rightarrow> rat" where
  "lumpSumGrowth amount annualRatePercent years = amount * (1 + annualRatePercent / 100) ^ years"

section \<open>The personalized plan: lines 131 to 167\<close>

record request =
  req_age :: int
  req_income :: rat
  req_expenses :: rat
  req_debt :: rat
  req_dependents :: int
  req_occupation :: string
  req_knowledge :: string
  req_risk_level :: string
  req_step_up :: rat
  req_years :: int
  req_goal :: string
  req_goal_amount :: rat
  req_existing_savings :: rat

definition returns_rate :: "rat dict" where
  "returns_rate = [(''Stocks'', 15 / 100), (''Mutual Funds'', 13 / 100), (''Gold'', 9 / 100),
     (''Insurance'', 5 / 100), (''Emergency Fund'', 3 / 100)]"

definition cat_map :: "string dict" where
  "cat_map = [(''Stocks'', ''Stock''), (''Mutual Funds'', ''Mutual Fund''), (''Gold'', ''Gold''),
     (''Insurance'', ''Insurance''), (''Emergency Fund'', ''Other'')]"

text \<open>\<^verbatim>\<open>d[k]\<close> raises \<^verbatim>\<open>KeyError\<close> on a missing key.\<close>

definition dict_item :: "'v dict \<Rightarrow> string \<Rightarrow> py_error + 'v" where
  "dict_item d k = (case map_of d k of None \<Rightarrow> Inl KeyError | Some v \<Rightarrow> Inr v)"

text \<open>
  Lines 149 to 152: one projection for each bucket of the plan, the principal being the
  literal 0, and the running total. The lines written are collected in a dictionary.
\<close>

fun project_buckets ::
  "int \<Rightarrow> rat \<Rightarrow> rat dict \<Rightarrow> rat dict \<Rightarrow> rat \<Rightarrow> py_error + rat dict \<times> rat" where
  "project_buckets years step_up [] written total_future_value =
     Inr (written, total_future_value)"
| "project_buckets years step_up ((k, monthly_amt) # items) written total_future_value =
     (case dict_item returns_rate k of
        Inl e \<Rightarrow> Inl e
      | Inr rate \<Rightarrow>
          let fv = compound_with_stepup 0 rate (of_int years) monthly_amt step_up
          in project_buckets years step_up items (written @ [(k, fv)])
               (total_future_value + fv))"

text \<open>Lines 159 to 167: the suggestions for each bucket of the plan.\<close>

fun suggest ::
  "resource list \<Rightarrow> string list \<Rightarrow> (string \<times> resource list) list
   \<Rightarrow> py_error + (string \<times> resource list) list" where
  "suggest resources [] written = Inr written"
| "suggest resources (category # categories) written =
     (case dict_item cat_map category of
        Inl e \<Rightarrow> Inl e
      | Inr c \<Rightarrow>
          suggest resources categories (written @ [(category, get_top_items resources c 3)]))"

record plan_output =
  out_plan :: "rat dict"
  out_total_savings :: rat
  out_projections :: "rat dict"
  out_total_future_value :: rat
  out_suggestions :: "(string \<times> resource list) list"

definition generate_plan :: "resource list \<Rightarrow> request \<Rightarrow> py_error + plan_output" where
  "generate_plan resources req =
     (case investment_advice (req_income req) (req_expenses req) (req_age req)
             (req_risk_level req) (req_occupation req) (req_knowledge req)
             (req_dependents req) (req_debt req) of
        Inl e \<Rightarrow> Inl e
      | Inr plan \<Rightarrow>
          let total_savings = req_income req - req_expenses req - req_debt req
          in case project_buckets (req_years req) (req_step_up req) plan [] 0 of
               Inl e \<Rightarrow> Inl e
             | Inr (projections, total_future_value) \<Rightarrow>
                 (case suggest resources (dict_keys plan) [] of
                    Inl e \<Rightarrow> Inl e
                  | Inr suggestions \<Rightarrow>
                      Inr \<lparr>out_plan = plan, out_total_savings = total_savings,
                           out_projections = projections,
                           out_total_future_value = total_future_value,
                           out_suggestions = suggestions\<rparr>))"

section \<open>Example inputs\<close>

definition catalog_example :: "resource list" where
  "catalog_example =
     [\<lparr>rtype = ''Stock'', rname = ''A'', cagr_10y = Some 10\<rparr>,
      \<lparr>rtype = ''Gold'', rname = ''G'', cagr_10y = Some 30\<rparr>,
      \<lparr>rtype = ''stock'', rname = ''B'', cagr_10y = None\<rparr>,
      \<lparr>rtype = ''STOCK'', rname = ''C'', cagr_10y = Some 12\<rparr>,
      \<lparr>rtype = ''Stock'', rname = ''D'', cagr_10y = Some 10\<rparr>]"



definition request_example :: request where
  "request_example =
     \<lparr>req_age = 30, req_income = 50000, req_expenses = 25000, req_debt = 5000,
      req_dependents = 1, req_occupation = ''Job'', req_knowledge = ''Beginner'',
      req_risk_level = ''Moderate'', req_step_up = 5 / 100, req_years = 1,
      req_goal = ''Retirement'', req_goal_amount = 1000000, req_existing_savings = 100000\<rparr>"

text \<open>
  A line of the projection comes from an item of the plan when it has the item's bucket
  and is the projection of its amount from the principal 0 at the bucket's rate.
\<close>

definition projected_from :: "int \<Rightarrow> rat \<Rightarrow> string \<times> rat \<Rightarrow> string \<times> rat \<Rightarrow> bool" where
  "projected_from years step_up item line =
     (fst line = fst item \<and>
      (case map_of returns_rate (fst item) of
         None \<Rightarrow> False
       | Some rate \<Rightarrow> snd line = compound_with_stepup 0 rate (of_int years) (snd item) step_up))"

section \<open>Facts about rounding\<close>




lemma round_half_even_nonneg: "0 \<le> x \<Longrightarrow> 0 \<le> round_half_even x"
  unfolding round_half_even_def Let_def by (auto; linarith)

lemma round2_nonneg: "0 \<le> x \<Longrightarrow> 0 \<le> round2 x"
  by (simp add: round2_def round_half_even_nonneg)

section \<open>Facts about the ratio table\<close>

lemma adjusted_ratio_eq_spec_table:
  "adjusted_ratio age risk_level occupation knowledge dependents
   = spec_table age risk_level occupation knowledge dependents"
  by (simp add: adjusted_ratio_def spec_table_def spec_ratio_def spec_base_def base_ratio_def
      adjust_age_dependents_def adjust_occupation_def adjust_knowledge_def add_to_def
      spec_delta_age_dependents_def spec_delta_occupation_def spec_delta_knowledge_def
      bucket_names_def Let_def)

lemma sum_adjusted_ratio:
  "sum_list (dict_values (adjusted_ratio age risk_level occupation knowledge dependents)) = 1"
  by (simp add: adjusted_ratio_eq_spec_table spec_table_def spec_ratio_def spec_base_def
      spec_delta_age_dependents_def spec_delta_occupation_def spec_delta_knowledge_def
      bucket_names_def dict_values_def)

lemma five_entries:
  assumes "dict_keys t = bucket_names"
  obtains a b c d e where
    "t = [(''Stocks'', a), (''Mutual Funds'', b), (''Gold'', c), (''Insurance'', d), (''Emergency Fund'', e)]"
  using assms unfolding dict_keys_def bucket_names_def
  by (auto simp: map_eq_Cons_conv)

lemma sum_adjust_age_dependents:
  assumes "dict_keys t = bucket_names"
  shows "sum_list (dict_values (adjust_age_dependents t)) = sum_list (dict_values t)"
proof -
  from assms obtain a b c d e where
    "t = [(''Stocks'', a), (''Mutual Funds'', b), (''Gold'', c), (''Insurance'', d), (''Emergency Fund'', e)]"
    by (rule five_entries)
  then show ?thesis by (simp add: adjust_age_dependents_def add_to_def dict_values_def)
qed

lemma sum_adjust_occupation:
  assumes "dict_keys t = bucket_names"
  shows "sum_list (dict_values (adjust_occupation t)) = sum_list (dict_values t)"
proof -
  from assms obtain a b c d e where
    "t = [(''Stocks'', a), (''Mutual Funds'', b), (''Gold'', c), (''Insurance'', d), (''Emergency Fund'', e)]"
    by (rule five_entries)
  then show ?thesis by (simp add: adjust_occupation_def add_to_def dict_values_def)
qed

lemma sum_adjust_knowledge:
  assumes "dict_keys t = bucket_names"
  shows "sum_list (dict_values (adjust_knowledge t)) = sum_list (dict_values t)"
proof -
  from assms obtain a b c d e where
    "t = [(''Stocks'', a), (''Mutual Funds'', b), (''Gold'', c), (''Insurance'', d), (''Emergency Fund'', e)]"
    by (rule five_entries)
  then show ?thesis by (simp add: adjust_knowledge_def add_to_def dict_values_def)
qed




lemma adjusted_ratio_positive:
  "\<forall>(k, v) \<in> set (adjusted_ratio age risk_level occupation knowledge dependents). 5 / 100 \<le> v"
  by (simp add: adjusted_ratio_eq_spec_table spec_table_def spec_ratio_def spec_base_def
      spec_delta_age_dependents_def spec_delta_occupation_def spec_delta_knowledge_def
      bucket_names_def)

section \<open>Claims about the allocation engine\<close>

text \<open>
  Claim C1. For every profile with positive savings, the ratio table that
  \<^const>\<open>investment_advice\<close> normalises is the base table of the risk level (High, Moderate,
  and the Low table for any other value) plus, bucket by bucket, the deltas of the blocks
  whose conditions hold: age above 50 or more than 3 dependents; occupation Business or
  Freelancer; knowledge Beginner (strings compared in lower case). The conditions are
  independent and no value is clamped.
\<close>

theorem allocate_ratio_table:
  assumes "0 < income - expenses - debt"
  shows "adjusted_ratio age risk_level occupation knowledge dependents
           = spec_table age risk_level occupation knowledge dependents
         \<and> investment_advice income expenses age risk_level occupation knowledge dependents debt
           = normalize_allocate (spec_table age risk_level occupation knowledge dependents)
               (income - expenses - debt)"
  using assms by (simp add: investment_advice_def adjusted_ratio_eq_spec_table Let_def)

theorem allocate_ratio_table_witness:
  "adjusted_ratio 55 ''Low'' ''Business'' ''Beginner'' 1
           = spec_table 55 ''Low'' ''Business'' ''Beginner'' 1
         \<and> investment_advice 50000 25000 55 ''Low'' ''Business'' ''Beginner'' 1 5000
           = normalize_allocate (spec_table 55 ''Low'' ''Business'' ''Beginner'' 1)
               (50000 - 25000 - 5000)"
proof -
  have h: "(0::rat) < 50000 - 25000 - 5000" by simp
  show ?thesis by (rule allocate_ratio_table [OF h])
qed



text \<open>
  Claim C3. \<^const>\<open>investment_advice\<close> returns \<^const>\<open>InsufficientSavings\<close> when income minus
  expenses minus debt is at most zero, and no allocation then; with positive savings it
  returns an allocation over the five buckets, so there is no other error.
\<close>

theorem insufficient_savings_iff:
  "(income - expenses - debt \<le> 0 \<longrightarrow>
      investment_advice income expenses age risk_level occupation knowledge dependents debt
        = Inl InsufficientSavings)
   \<and> (0 < income - expenses - debt \<longrightarrow>
      (\<exists>alloc. investment_advice income expenses age risk_level occupation knowledge dependents debt
        = Inr alloc \<and> dict_keys alloc = bucket_names))"
proof -
  let ?ratio = "adjusted_ratio age risk_level occupation knowledge dependents"
  have t: "sum_list (dict_values ?ratio) = 1" by (rule sum_adjusted_ratio)
  have k: "dict_keys ?ratio = bucket_names"
    by (simp add: adjusted_ratio_eq_spec_table spec_table_def dict_keys_def comp_def)
  show ?thesis
    using k by (simp add: investment_advice_def normalize_allocate_def t Let_def dict_keys_def
        comp_def case_prod_unfold)
qed

theorem insufficient_savings_iff_witness:
  "investment_advice 20000 25000 30 ''High'' ''Job'' ''Expert'' 0 5000 = Inl InsufficientSavings
   \<and> (\<exists>alloc. investment_advice 50000 25000 30 ''High'' ''Job'' ''Expert'' 0 5000 = Inr alloc
        \<and> dict_keys alloc = bucket_names)"
proof -
  have h1: "(20000::rat) - 25000 - 5000 \<le> 0" by simp
  have h2: "(0::rat) < 50000 - 25000 - 5000" by simp
  from insufficient_savings_iff [of 20000 25000 5000 30 "''High''" "''Job''" "''Expert''" 0] h1
  have a: "investment_advice 20000 25000 30 ''High'' ''Job'' ''Expert'' 0 5000
           = Inl InsufficientSavings"
    by blast
  from insufficient_savings_iff [of 50000 25000 5000 30 "''High''" "''Job''" "''Expert''" 0] h2
  have b: "\<exists>alloc. investment_advice 50000 25000 30 ''High'' ''Job'' ''Expert'' 0 5000 = Inr alloc
        \<and> dict_keys alloc = bucket_names"
    by blast
  from a b show ?thesis by blast
qed

text \<open>
  Claim C6. For every profile with positive savings every ratio of the adjusted table is
  positive, whatever the age, the dependents and the three strings are, and every one of
  the five amounts returned is non-negative.
\<close>

theorem amounts_nonnegative:
  assumes "0 < income - expenses - debt"
  shows "(\<forall>(k, v) \<in> set (adjusted_ratio age risk_level occupation knowledge dependents). 0 < v)
    \<and> (\<exists>alloc. investment_advice income expenses age risk_level occupation knowledge dependents debt
             = Inr alloc \<and> dict_keys alloc = bucket_names \<and> (\<forall>(k, a) \<in> set alloc. 0 \<le> a))"
proof -
  let ?ratio = "adjusted_ratio age risk_level occupation knowledge dependents"
  let ?s = "income - expenses - debt"
  let ?alloc = "map (\<lambda>(k, v). (k, round2 (v * ?s))) ?ratio"
  have t: "sum_list (dict_values ?ratio) = 1" by (rule sum_adjusted_ratio)
  have p: "\<forall>(k, v) \<in> set ?ratio. 5 / 100 \<le> v" by (rule adjusted_ratio_positive)
  then have p0: "\<forall>(k, v) \<in> set ?ratio. 0 < v" by fastforce
  have a: "investment_advice income expenses age risk_level occupation knowledge dependents debt
           = Inr ?alloc"
    using assms by (simp add: investment_advice_def normalize_allocate_def t Let_def
        case_prod_unfold comp_def)
  have k: "dict_keys ?alloc = bucket_names"
    by (simp add: adjusted_ratio_eq_spec_table spec_table_def dict_keys_def comp_def)
  have "\<forall>(k, a) \<in> set ?alloc. 0 \<le> a"
  proof -
    have "0 \<le> round2 (v * ?s)" if "(k, v) \<in> set ?ratio" for k v
    proof -
      from p0 that have "0 < v" by blast
      with assms have "0 \<le> v * ?s" by simp
      then show ?thesis by (rule round2_nonneg)
    qed
    then show ?thesis by auto
  qed
  with a k p0 show ?thesis by blast
qed

theorem amounts_nonnegative_witness:
  "list_all (\<lambda>(k, v). 0 < v) (adjusted_ratio 100 ''Low'' ''Freelancer'' ''Beginner'' 10)
    \<and> (\<exists>alloc. investment_advice 1000 0 100 ''Low'' ''Freelancer'' ''Beginner'' 10 0
             = Inr alloc \<and> dict_keys alloc = bucket_names \<and> list_all (\<lambda>(k, a). 0 \<le> a) alloc)"
proof -
  have h: "(0::rat) < 1000 - 0 - 0" by simp
  from amounts_nonnegative [OF h, of 100 "''Low''" "''Freelancer''" "''Beginner''" 10]
  show ?thesis unfolding list_all_iff by blast
qed

text \<open>
  Claim C10. Each of the three adjustment blocks leaves the sum of a table over the five
  buckets unchanged, the base table sums to 1, so the adjusted table sums to 1 and the
  division of the normalisation never has a zero divisor:
  \<^const>\<open>investment_advice\<close> never returns \<^const>\<open>ZeroDivisionError\<close>.
\<close>

theorem normalization_divisor_nonzero:
  "(\<forall>t. dict_keys t = bucket_names \<longrightarrow>
        sum_list (dict_values (adjust_age_dependents t)) = sum_list (dict_values t)
      \<and> sum_list (dict_values (adjust_occupation t)) = sum_list (dict_values t)
      \<and> sum_list (dict_values (adjust_knowledge t)) = sum_list (dict_values t))
   \<and> sum_list (dict_values (base_ratio risk_level)) = 1
   \<and> sum_list (dict_values (adjusted_ratio age risk_level occupation knowledge dependents)) = 1
   \<and> investment_advice income expenses age risk_level occupation knowledge dependents debt
        \<noteq> Inl ZeroDivisionError"
proof -
  let ?ratio = "adjusted_ratio age risk_level occupation knowledge dependents"
  have t: "sum_list (dict_values ?ratio) = 1" by (rule sum_adjusted_ratio)
  have b: "sum_list (dict_values (base_ratio risk_level)) = 1"
    by (simp add: base_ratio_def dict_values_def)
  have z: "investment_advice income expenses age risk_level occupation knowledge dependents debt
        \<noteq> Inl ZeroDivisionError"
    by (simp add: investment_advice_def normalize_allocate_def t Let_def)
  show ?thesis
    using t b z sum_adjust_age_dependents sum_adjust_occupation sum_adjust_knowledge by blast
qed

theorem normalization_divisor_nonzero_witness:
  "sum_list (dict_values (adjust_age_dependents (base_ratio ''High'')))
     = sum_list (dict_values (base_ratio ''High''))
   \<and> sum_list (dict_values (adjust_occupation (base_ratio ''High'')))
     = sum_list (dict_values (base_ratio ''High''))
   \<and> sum_list (dict_values (adjust_knowledge (base_ratio ''High'')))
     = sum_list (dict_values (base_ratio ''High''))
   \<and> sum_list (dict_values (adjusted_ratio 55 ''High'' ''Business'' ''Beginner'' 4)) = 1
   \<and> investment_advice 50000 25000 55 ''High'' ''Business'' ''Beginner'' 4 5000
        \<noteq> Inl ZeroDivisionError"
proof -
  have h: "dict_keys (base_ratio ''High'') = bucket_names" by code_simp
  from normalization_divisor_nonzero
    [of "''High''" 55 "''Business''" "''Beginner''" 4 50000 25000 5000] h
  show ?thesis by blast
qed

section \<open>Claims about the projection engine\<close>

lemma run_months_append:
  "run_months r s (xs @ ys) t m =
     (case run_months r s xs t m of (t', m') \<Rightarrow> run_months r s ys t' m')"
  by (induction xs arbitrary: t m) (simp_all add: Let_def)

lemma run_months_upt:
  "run_months (rate / 12) s [0..<k] p m =
     (spec_total p rate m s k, m * (1 + s) ^ (k div 12))"
proof (induction k)
  case 0
  then show ?case by simp
next
  case (Suc k)
  have d: "Suc k div 12 = (if Suc k mod 12 = 0 then Suc (k div 12) else k div 12)"
    by (rule div_Suc)
  show ?case
    using Suc.IH
    by (simp add: run_months_append Let_def spec_contribution_def d)
qed

lemma nat_py_int: "nat (py_int x) = nat \<lfloor>x\<rfloor>"
proof (cases "0 \<le> x")
  case True
  then show ?thesis by (simp add: py_int_def)
next
  case False
  then have "\<lceil>x\<rceil> \<le> 0" "\<lfloor>x\<rfloor> \<le> 0" by (simp_all add: ceiling_le_iff floor_le_iff) 
  with False show ?thesis by (simp add: py_int_def)
qed

text \<open>
  Claim C4. \<^const>\<open>compound_with_stepup\<close> runs \<open>\<lfloor>years * 12\<rfloor>\<close> months (none when that is
  negative) and returns the total of the recurrence rounded to 2 decimals: each month the
  total becomes \<open>total * (1 + rate / 12)\<close> plus the contribution of that month; after every
  12th month, once its contribution is added, the contribution is multiplied by
  \<open>1 + step_up_rate\<close>, so the contribution of the months 13 to 24 is the original one times
  \<open>1 + step_up_rate\<close>.
\<close>

theorem compound_with_stepup_recurrence:
  "compound_with_stepup p rate years m s = round2 (spec_total p rate m s (nat \<lfloor>years * 12\<rfloor>))
   \<and> (\<forall>k. run_months (rate / 12) s [0..<k] p m
            = (spec_total p rate m s k, spec_contribution m s (Suc k)))
   \<and> (\<forall>k. spec_total p rate m s (Suc k)
            = spec_total p rate m s k * (1 + rate / 12) + spec_contribution m s (Suc k))
   \<and> (\<forall>k. spec_contribution m s (Suc (Suc k))
            = (if Suc k mod 12 = 0 then spec_contribution m s (Suc k) * (1 + s)
               else spec_contribution m s (Suc k)))
   \<and> (\<forall>k \<in> {13..24}. spec_contribution m s k = m * (1 + s)
                     \<and> snd (run_months (rate / 12) s [0..<k - 1] p m) = m * (1 + s))"
proof -
  have a: "compound_with_stepup p rate years m s
           = round2 (spec_total p rate m s (nat \<lfloor>years * 12\<rfloor>))"
    by (simp add: compound_with_stepup_def py_range_def nat_py_int run_months_upt)
  have b: "\<forall>k. run_months (rate / 12) s [0..<k] p m
            = (spec_total p rate m s k, spec_contribution m s (Suc k))"
    by (simp add: run_months_upt spec_contribution_def)
  have c: "\<forall>k. spec_total p rate m s (Suc k)
            = spec_total p rate m s k * (1 + rate / 12) + spec_contribution m s (Suc k)"
    by simp
  have d: "\<forall>k. spec_contribution m s (Suc (Suc k))
            = (if Suc k mod 12 = 0 then spec_contribution m s (Suc k) * (1 + s)
               else spec_contribution m s (Suc k))"
    by (simp add: spec_contribution_def div_Suc)
  have e: "spec_contribution m s k = m * (1 + s)
           \<and> snd (run_months (rate / 12) s [0..<k - 1] p m) = m * (1 + s)"
    if "k \<in> {13..24}" for k
  proof -
    from that have "(k - 1) div 12 = 1" by auto
    then show ?thesis by (simp add: run_months_upt spec_contribution_def)
  qed
  from a b c d e show ?thesis by blast
qed

theorem compound_with_stepup_recurrence_witness:
  "compound_with_stepup 0 (12 / 100) 1 1000 0 = 12682.5
   \<and> compound_with_stepup 0 (12 / 100) 1 1000 0
       = round2 (spec_total 0 (12 / 100) 1000 0 (nat \<lfloor>(1::rat) * 12\<rfloor>))
   \<and> spec_contribution 1000 (10 / 100) 13 = 1000 * (1 + 10 / 100)
   \<and> snd (run_months ((12 / 100) / 12) (10 / 100) [0..<24 - 1] 0 1000) = 1000 * (1 + 10 / 100)"
proof -
  have v: "compound_with_stepup 0 (12 / 100) 1 1000 0 = 12682.5" by code_simp
  have h13: "(13::nat) \<in> {13..24}" and h24: "(24::nat) \<in> {13..24}" by simp_all
  note t1 = compound_with_stepup_recurrence [of 0 "12 / 100" 1 1000 0]
  note t2 = compound_with_stepup_recurrence [of 0 "12 / 100" 1 1000 "10 / 100"]
  from t1 have a: "compound_with_stepup 0 (12 / 100) 1 1000 0
       = round2 (spec_total 0 (12 / 100) 1000 0 (nat \<lfloor>(1::rat) * 12\<rfloor>))" by blast
  from t2 h13 have b: "spec_contribution 1000 (10 / 100) 13 = 1000 * (1 + 10 / 100)" by blast
  from t2 h24 have c: "snd (run_months ((12 / 100) / 12) (10 / 100) [0..<24 - 1] 0 1000)
       = 1000 * (1 + 10 / 100)" by blast
  from v a b c show ?thesis by blast
qed

section \<open>Claims about the catalog query\<close>










section \<open>Claims about the explorer\<close>

lemma py_pow_nonneg: "0 \<le> n \<Longrightarrow> py_pow x n = Inr (x ^ nat n)"
  by (simp add: py_pow_def)

text \<open>
  Claim C7. For every amount, rate and number of years the explorer's widgets can give
  (amount at least 1000, years from 1 to 40), the block computes the future value
  \<open>amount * (1 + rate / 100) ^ years\<close>, the profit as the future value minus the amount, and
  the progress \<open>min (future value / (amount * 3)) 1\<close>; for 10000 at 12 percent over 10
  years the future value is within a cent of 31058.48.
\<close>

theorem calculate_growth_formula:
  assumes "explorer_inputs amount years"
  shows "calculate_growth amount rate years
           = Inr \<lparr>final_value = lumpSumGrowth amount rate (nat years),
                  profit = lumpSumGrowth amount rate (nat years) - amount,
                  progress = min (lumpSumGrowth amount rate (nat years) / (amount * 3)) 1\<rparr>
    \<and> lumpSumGrowth amount rate (nat years) = amount * (1 + rate / 100) ^ nat years
    \<and> \<bar>lumpSumGrowth 10000 12 10 - 31058.48\<bar> < 1 / 100"
proof -
  from assms have y: "0 \<le> years" and a: "amount * 3 \<noteq> 0"
    by (simp_all add: explorer_inputs_def)
  have c: "calculate_growth amount rate years
           = Inr \<lparr>final_value = lumpSumGrowth amount rate (nat years),
                  profit = lumpSumGrowth amount rate (nat years) - amount,
                  progress = min (lumpSumGrowth amount rate (nat years) / (amount * 3)) 1\<rparr>"
    using a by (simp add: calculate_growth_def py_pow_nonneg [OF y] lumpSumGrowth_def Let_def)
  have v: "\<bar>lumpSumGrowth 10000 12 10 - 31058.48\<bar> < 1 / 100"
    by code_simp
  from c v show ?thesis by (simp add: lumpSumGrowth_def)
qed

theorem calculate_growth_formula_witness:
  "calculate_growth 10000 12 10
           = Inr \<lparr>final_value = lumpSumGrowth 10000 12 (nat 10),
                  profit = lumpSumGrowth 10000 12 (nat 10) - 10000,
                  progress = min (lumpSumGrowth 10000 12 (nat 10) / (10000 * 3)) 1\<rparr>
    \<and> lumpSumGrowth 10000 12 (nat 10) = 10000 * (1 + 12 / 100) ^ nat 10
    \<and> \<bar>lumpSumGrowth 10000 12 10 - 31058.48\<bar> < 1 / 100"
proof -
  have h: "explorer_inputs 10000 10" by (simp add: explorer_inputs_def)
  show ?thesis by (rule calculate_growth_formula [OF h])
qed

section \<open>Claims about the loader\<close>





section \<open>Claims about the personalized plan\<close>

lemma investment_advice_returns:
  assumes "0 < income - expenses - debt"
  shows "\<exists>alloc. investment_advice income expenses age risk_level occupation knowledge dependents debt
           = Inr alloc \<and> dict_keys alloc = bucket_names"
proof -
  let ?ratio = "adjusted_ratio age risk_level occupation knowledge dependents"
  have t: "sum_list (dict_values ?ratio) = 1" by (rule sum_adjusted_ratio)
  have k: "dict_keys ?ratio = bucket_names"
    by (simp add: adjusted_ratio_eq_spec_table spec_table_def dict_keys_def comp_def)
  show ?thesis
    using k assms by (simp add: investment_advice_def normalize_allocate_def t Let_def dict_keys_def
        comp_def case_prod_unfold)
qed

lemma returns_rate_known:
  assumes "k \<in> set bucket_names"
  shows "\<exists>rate. map_of returns_rate k = Some rate"
proof -
  have "map fst returns_rate = bucket_names"
    by (simp add: returns_rate_def bucket_names_def)
  then have "fst ` set returns_rate = set bucket_names"
    by (metis set_map)
  with assms have "map_of returns_rate k \<noteq> None"
    by (simp add: map_of_eq_None_iff)
  then show ?thesis by blast
qed

lemma cat_map_known:
  assumes "k \<in> set bucket_names"
  shows "\<exists>c. map_of cat_map k = Some c"
proof -
  have "map fst cat_map = bucket_names"
    by (simp add: cat_map_def bucket_names_def)
  then have "fst ` set cat_map = set bucket_names"
    by (metis set_map)
  with assms have "map_of cat_map k \<noteq> None"
    by (simp add: map_of_eq_None_iff)
  then show ?thesis by blast
qed

lemma project_buckets_ok:
  assumes "set (dict_keys items) \<subseteq> set bucket_names"
  shows "\<exists>ps. project_buckets years step_up items written t
                 = Inr (written @ ps, t + sum_list (dict_values ps))
            \<and> list_all2 (projected_from years step_up) items ps"
  using assms
proof (induction items arbitrary: written t)
  case Nil
  then show ?case by (simp add: dict_values_def)
next
  case (Cons item items)
  obtain k amt where item: "item = (k, amt)" by (cases item)
  from Cons.prems item have "k \<in> set bucket_names" by (simp add: dict_keys_def)
  then obtain rate where rate: "map_of returns_rate k = Some rate"
    using returns_rate_known by blast
  let ?fv = "compound_with_stepup 0 rate (of_int years) amt step_up"
  from Cons.prems have "set (dict_keys items) \<subseteq> set bucket_names" by (simp add: dict_keys_def)
  from Cons.IH [OF this, of "written @ [(k, ?fv)]" "t + ?fv"] obtain ps where
    ps: "project_buckets years step_up items (written @ [(k, ?fv)]) (t + ?fv)
           = Inr ((written @ [(k, ?fv)]) @ ps, (t + ?fv) + sum_list (dict_values ps))"
        "list_all2 (projected_from years step_up) items ps"
    by blast
  have "project_buckets years step_up (item # items) written t
          = Inr (written @ ((k, ?fv) # ps), t + sum_list (dict_values ((k, ?fv) # ps)))"
    using ps(1) by (simp add: item dict_item_def rate Let_def dict_values_def add.assoc)
  moreover have "list_all2 (projected_from years step_up) (item # items) ((k, ?fv) # ps)"
    using ps(2) by (simp add: item projected_from_def rate)
  ultimately show ?case by blast
qed

lemma suggest_ok:
  assumes "set categories \<subseteq> set bucket_names"
  shows "\<exists>ss. suggest resources categories written = Inr (written @ ss)"
  using assms
proof (induction categories arbitrary: written)
  case Nil
  then show ?case by simp
next
  case (Cons c cs)
  from Cons.prems have "c \<in> set bucket_names" by simp
  then obtain m where m: "map_of cat_map c = Some m" using cat_map_known by blast
  from Cons.prems have "set cs \<subseteq> set bucket_names" by simp
  from Cons.IH [OF this, of "written @ [(c, get_top_items resources m 3)]"] obtain ss where
    ss: "suggest resources cs (written @ [(c, get_top_items resources m 3)])
           = Inr ((written @ [(c, get_top_items resources m 3)]) @ ss)"
    by blast
  have "suggest resources (c # cs) written
          = Inr (written @ ((c, get_top_items resources m 3) # ss))"
    using ss by (simp add: dict_item_def m)
  then show ?case by blast
qed

text \<open>
  Claim C9. The existing-savings input has no effect: two requests that differ only in it
  give the same result, error or plan with its allocation, projections, total and
  suggestions. With positive savings the plan is returned, its allocation is that of
  \<^const>\<open>investment_advice\<close>, which has no existing-savings argument, every projection is
  computed from the principal 0, and the total is the sum of the projections.
\<close>

theorem existing_savings_ignored:
  "generate_plan resources (req\<lparr>req_existing_savings := x\<rparr>)
     = generate_plan resources (req\<lparr>req_existing_savings := y\<rparr>)
   \<and> (0 < req_income req - req_expenses req - req_debt req \<longrightarrow>
        (\<exists>out. generate_plan resources req = Inr out
           \<and> investment_advice (req_income req) (req_expenses req) (req_age req)
               (req_risk_level req) (req_occupation req) (req_knowledge req)
               (req_dependents req) (req_debt req) = Inr (out_plan out)
           \<and> list_all2 (projected_from (req_years req) (req_step_up req))
               (out_plan out) (out_projections out)
           \<and> out_total_future_value out = sum_list (dict_values (out_projections out))))"
proof -
  have a: "generate_plan resources (req\<lparr>req_existing_savings := x\<rparr>)
     = generate_plan resources (req\<lparr>req_existing_savings := y\<rparr>)"
    by (simp add: generate_plan_def Let_def cong: sum.case_cong)
  have b: "\<exists>out. generate_plan resources req = Inr out
           \<and> investment_advice (req_income req) (req_expenses req) (req_age req)
               (req_risk_level req) (req_occupation req) (req_knowledge req)
               (req_dependents req) (req_debt req) = Inr (out_plan out)
           \<and> list_all2 (projected_from (req_years req) (req_step_up req))
               (out_plan out) (out_projections out)
           \<and> out_total_future_value out = sum_list (dict_values (out_projections out))"
    if s: "0 < req_income req - req_expenses req - req_debt req"
  proof -
    from investment_advice_returns [OF s] obtain plan where
      plan: "investment_advice (req_income req) (req_expenses req) (req_age req)
               (req_risk_level req) (req_occupation req) (req_knowledge req)
               (req_dependents req) (req_debt req) = Inr plan"
        "dict_keys plan = bucket_names"
      by blast
    from plan(2) have k: "set (dict_keys plan) \<subseteq> set bucket_names" by simp
    from project_buckets_ok [OF k, of "req_years req" "req_step_up req" "[]" 0] obtain ps where
      ps: "project_buckets (req_years req) (req_step_up req) plan [] 0
             = Inr (ps, sum_list (dict_values ps))"
          "list_all2 (projected_from (req_years req) (req_step_up req)) plan ps"
      by auto
    from suggest_ok [OF k, of resources "[]"] obtain ss where
      ss: "suggest resources (dict_keys plan) [] = Inr ss" by auto
    have "generate_plan resources req
            = Inr \<lparr>out_plan = plan,
                   out_total_savings = req_income req - req_expenses req - req_debt req,
                   out_projections = ps, out_total_future_value = sum_list (dict_values ps),
                   out_suggestions = ss\<rparr>"
      by (simp add: generate_plan_def Let_def plan(1) ps(1) ss)
    with plan(1) ps(2) show ?thesis by simp
  qed
  from a b show ?thesis by blast
qed

theorem existing_savings_ignored_witness:
  "generate_plan catalog_example (request_example\<lparr>req_existing_savings := 0\<rparr>)
     = generate_plan catalog_example (request_example\<lparr>req_existing_savings := 250000\<rparr>)
   \<and> (\<exists>out. generate_plan catalog_example request_example = Inr out
           \<and> investment_advice (req_income request_example) (req_expenses request_example)
               (req_age request_example) (req_risk_level request_example)
               (req_occupation request_example) (req_knowledge request_example)
               (req_dependents request_example) (req_debt request_example) = Inr (out_plan out)
           \<and> list_all2 (projected_from (req_years request_example) (req_step_up request_example))
               (out_plan out) (out_projections out)
           \<and> out_total_future_value out = sum_list (dict_values (out_projections out)))"
proof -
  have h: "0 < req_income request_example - req_expenses request_example
               - req_debt request_example"
    by (simp add: request_example_def)
  from existing_savings_ignored
    [where resources = catalog_example and req = request_example and x = 0 and y = 250000] h
  show ?thesis by blast
qed

end
